theory Spec2Isabelle
  imports Complex_Main "HOL-Library.Char_ord" "HOL-Library.List_Lexorder"
    "HOL-Library.Product_Lexorder" "HOL-Library.Multiset"
begin

section \<open>Data model\<close>

text \<open>
  A table cell as pandas holds it after \<open>read_csv\<close>: the missing marker (NaN), a string
  (a cell of an object column) or a number. Numbers are modelled as rationals: sums and
  quotients are exact, where the program computes them in 64-bit floating point.
\<close>

datatype cell = NaN | Str string | Num rat

text \<open>
  A DataFrame: the column names, the index labels of the rows and the rows themselves,
  each row holding one cell per column.
\<close>

record frame =
  columns :: "string list"
  rows :: "(nat \<times> cell list) list"

text \<open>
  A table with labelled rows, as \<open>groupby(...).mean()\<close> and \<open>crosstab\<close> return it: the
  name of the index, the column labels, and for each row its label and its values.
\<close>

record table =
  index_name :: string
  col_labels :: "cell list"
  body :: "(cell \<times> cell list) list"

datatype exn = FileNotFoundError | KeyError "string list" | LibraryError string

text \<open>
  What the script takes from pandas, seaborn and matplotlib and what this development
  leaves open: parsing the text of a CSV file, converting one string to a number
  (\<open>None\<close> where \<open>errors='coerce'\<close> gives NaN), drawing the two charts (an exception or
  the bytes of the image), and printing a number and quoting a string in \<open>to_csv\<close>.
\<close>

record lib =
  parse_csv :: "string \<Rightarrow> exn + frame"
  to_numeric_str :: "string \<Rightarrow> rat option"
  barplot_png :: "frame \<Rightarrow> exn + string"
  barh_png :: "table \<Rightarrow> exn + string"
  float_repr :: "rat \<Rightarrow> string"
  csv_quote :: "string \<Rightarrow> string"

section \<open>Table operations of pandas used by the script\<close>

text \<open>The cell of row \<open>r\<close> under column \<open>c\<close>; pandas has no row shorter than the header.\<close>

definition cell_at :: "string list \<Rightarrow> cell list \<Rightarrow> string \<Rightarrow> cell" where
  "cell_at cols r c = (case map_of (zip cols r) c of Some v \<Rightarrow> v | None \<Rightarrow> NaN)"

text \<open>\<open>df.iloc[k:]\<close>: a positional slice; a slice never raises and is empty past the end.\<close>

definition iloc_from :: "nat \<Rightarrow> frame \<Rightarrow> frame" where
  "iloc_from k df = df\<lparr>rows := drop k (rows df)\<rparr>"

text \<open>\<open>df.reset_index(drop=True)\<close>: the index becomes 0, 1, ..., one label per row.\<close>

definition reset_index :: "frame \<Rightarrow> frame" where
  "reset_index df = df\<lparr>rows := zip [0..<length (rows df)] (map snd (rows df))\<rparr>"

text \<open>\<open>df[names]\<close> with a list of names: KeyError when a name is not a column.\<close>

definition getitem_cols :: "string list \<Rightarrow> frame \<Rightarrow> exn + frame" where
  "getitem_cols names df =
     (let missing = filter (\<lambda>n. n \<notin> set (columns df)) names
      in if missing \<noteq> [] then Inl (KeyError missing)
         else Inr \<lparr>columns = names,
                   rows = map (\<lambda>(i, r). (i, map (cell_at (columns df) r) names)) (rows df)\<rparr>)"

text \<open>\<open>df.rename(columns=d, inplace=True)\<close>: names that are keys of \<open>d\<close> are replaced.\<close>

definition rename :: "(string \<times> string) list \<Rightarrow> frame \<Rightarrow> frame" where
  "rename d df =
     df\<lparr>columns := map (\<lambda>c. case map_of d c of Some c' \<Rightarrow> c' | None \<Rightarrow> c) (columns df)\<rparr>"

text \<open>\<open>pd.to_numeric(x, errors='coerce')\<close> on one cell.\<close>

definition to_numeric :: "lib \<Rightarrow> cell \<Rightarrow> cell" where
  "to_numeric L c =
     (case c of NaN \<Rightarrow> NaN | Num x \<Rightarrow> Num x
      | Str s \<Rightarrow> (case to_numeric_str L s of None \<Rightarrow> NaN | Some x \<Rightarrow> Num x))"

text \<open>\<open>df[c] = f(df[c])\<close>: the column \<open>c\<close> is replaced cell by cell.\<close>

definition setitem_col :: "(cell \<Rightarrow> cell) \<Rightarrow> string \<Rightarrow> frame \<Rightarrow> frame" where
  "setitem_col f c df =
     df\<lparr>rows := map (\<lambda>(i, r). (i, map (\<lambda>(n, v). if n = c then f v else v) (zip (columns df) r)))
                  (rows df)\<rparr>"

text \<open>\<open>df.dropna(subset=cs, inplace=True)\<close>: a row missing any cell of \<open>cs\<close> goes.\<close>

definition dropna_subset :: "string list \<Rightarrow> frame \<Rightarrow> frame" where
  "dropna_subset cs df =
     df\<lparr>rows := filter (\<lambda>(i, r). list_all (\<lambda>c. cell_at (columns df) r c \<noteq> NaN) cs) (rows df)\<rparr>"

text \<open>\<open>df.dropna(inplace=True)\<close>: a row with any missing cell goes.\<close>

definition dropna :: "frame \<Rightarrow> frame" where
  "dropna df = df\<lparr>rows := filter (\<lambda>(i, r). list_all (\<lambda>v. v \<noteq> NaN) r) (rows df)\<rparr>"

text \<open>\<open>df[df[c].isin(vals)]\<close>: the rows whose cell under \<open>c\<close> is one of the strings.\<close>

definition filter_isin :: "string \<Rightarrow> string list \<Rightarrow> frame \<Rightarrow> frame" where
  "filter_isin c vals df =
     df\<lparr>rows := filter (\<lambda>(i, r). cell_at (columns df) r c \<in> set (map Str vals)) (rows df)\<rparr>"

text \<open>
  The order in which pandas lists group keys and crosstab labels: sorted, numbers by
  value, strings by code point, numbers before strings.
\<close>

fun cell_key :: "cell \<Rightarrow> nat \<times> rat \<times> string" where
  "cell_key (Num x) = (0, x, [])"
| "cell_key (Str s) = (1, 0, s)"
| "cell_key NaN = (2, 0, [])"

definition sorted_labels :: "cell list \<Rightarrow> cell list" where
  "sorted_labels vs = sort_key cell_key (remdups (filter (\<lambda>v. v \<noteq> NaN) vs))"

fun nums :: "cell list \<Rightarrow> rat list" where
  "nums [] = []"
| "nums (Num x # vs) = x # nums vs"
| "nums (v # vs) = nums vs"

text \<open>
  The mean of a numeric column: missing cells are skipped, no value gives NaN. The columns
  the script averages were converted by \<open>to_numeric\<close> and hold no string.
\<close>

definition mean_cell :: "cell list \<Rightarrow> cell" where
  "mean_cell vs =
     (let xs = nums vs in if xs = [] then NaN else Num (sum_list xs / of_nat (length xs)))"

text \<open>\<open>df.groupby(key)[cs].mean()\<close>: one row per key in sorted order, one mean per column.\<close>

definition groupby_mean :: "string \<Rightarrow> string list \<Rightarrow> frame \<Rightarrow> table" where
  "groupby_mean key cs df =
     \<lparr>index_name = key, col_labels = map Str cs,
      body = map (\<lambda>k. (k, map (\<lambda>c. mean_cell (map (\<lambda>(i, r). cell_at (columns df) r c)
                                 (filter (\<lambda>(i, r). cell_at (columns df) r key = k) (rows df)))) cs))
               (sorted_labels (map (\<lambda>(i, r). cell_at (columns df) r key) (rows df)))\<rparr>"

text \<open>
  \<open>df.melt(id_vars=a, value_vars=cs, var_name=v, value_name=w)\<close>: for each column of
  \<open>cs\<close> in turn, one row per row of \<open>df\<close>.
\<close>

definition melt :: "string \<Rightarrow> string list \<Rightarrow> string \<Rightarrow> string \<Rightarrow> frame \<Rightarrow> frame" where
  "melt a cs v w df =
     (let long = concat (map (\<lambda>c. map (\<lambda>(i, r). [cell_at (columns df) r a, Str c,
                                                   cell_at (columns df) r c]) (rows df)) cs)
      in \<lparr>columns = [a, v, w], rows = zip [0..<length long] long\<rparr>)"

text \<open>
  \<open>pd.crosstab(df[a], df[b], normalize='index') * 100\<close>: the counts of the pairs of values,
  rows and columns in sorted order, each count divided by the sum of its row and then
  multiplied by 100. A pair with a missing value is not counted.
\<close>

definition crosstab_count :: "string \<Rightarrow> string \<Rightarrow> frame \<Rightarrow> cell \<Rightarrow> cell \<Rightarrow> nat" where
  "crosstab_count a b df p q =
     length (filter (\<lambda>(i, r). cell_at (columns df) r a = p \<and> cell_at (columns df) r b = q)
               (rows df))"

definition crosstab_pct :: "string \<Rightarrow> string \<Rightarrow> frame \<Rightarrow> table" where
  "crosstab_pct a b df =
     (let present = filter (\<lambda>(i, r). cell_at (columns df) r a \<noteq> NaN \<and>
                                      cell_at (columns df) r b \<noteq> NaN) (rows df);
          ps = sorted_labels (map (\<lambda>(i, r). cell_at (columns df) r a) present);
          qs = sorted_labels (map (\<lambda>(i, r). cell_at (columns df) r b) present)
      in \<lparr>index_name = a, col_labels = qs,
          body = map (\<lambda>p. (p, map (\<lambda>q. Num (of_nat (crosstab_count a b df p q) /
                                         of_nat (sum_list (map (crosstab_count a b df p) qs)) * 100))
                                 qs)) ps\<rparr>)"

text \<open>\<open>t[labels]\<close> on a table whose columns include every label: the columns in that order.\<close>

definition value_at :: "cell list \<Rightarrow> cell list \<Rightarrow> cell \<Rightarrow> cell" where
  "value_at labels vs l = (case map_of (zip labels vs) l of Some v \<Rightarrow> v | None \<Rightarrow> NaN)"

definition getitem_labels :: "cell list \<Rightarrow> table \<Rightarrow> table" where
  "getitem_labels labels t =
     t\<lparr>col_labels := labels,
       body := map (\<lambda>(k, vs). (k, map (value_at (col_labels t) vs) labels)) (body t)\<rparr>"

text \<open>
  \<open>t.to_csv(f)\<close>: a header line with the index name and the column labels, then one line
  per row; fields joined by commas, every line ended by a newline, a missing value
  written as the empty field.
\<close>

definition newline :: string where
  "newline = [CHR 0x0A]"

definition csv_field :: "lib \<Rightarrow> cell \<Rightarrow> string" where
  "csv_field L c = (case c of NaN \<Rightarrow> [] | Str s \<Rightarrow> csv_quote L s | Num x \<Rightarrow> float_repr L x)"

fun join_comma :: "string list \<Rightarrow> string" where
  "join_comma [] = []"
| "join_comma [s] = s"
| "join_comma (s # t # ss) = s @ '','' @ join_comma (t # ss)"

definition csv_line :: "lib \<Rightarrow> cell list \<Rightarrow> string" where
  "csv_line L cs = join_comma (map (csv_field L) cs) @ newline"

definition to_csv :: "lib \<Rightarrow> table \<Rightarrow> string" where
  "to_csv L t =
     concat (map (csv_line L) ((Str (index_name t) # col_labels t) #
                               map (\<lambda>(k, vs). k # vs) (body t)))"

section \<open>The script\<close>

definition input_csv :: string where
  "input_csv = ''Alternative CPA Pathways Survey_December 31, 2025_09.45.csv''"

text \<open>
  Line 11, \<open>pd.read_csv(name, header=0)\<close>: FileNotFoundError when there is no such file,
  otherwise what the parser makes of its text.
\<close>

definition read_csv :: "lib \<Rightarrow> (string \<rightharpoonup> string) \<Rightarrow> string \<Rightarrow> exn + frame" where
  "read_csv L fs name =
     (case fs name of None \<Rightarrow> Inl FileNotFoundError | Some txt \<Rightarrow> parse_csv L txt)"

text \<open>Line 21: \<open>df_clean = df.iloc[2:].reset_index(drop=True)\<close>.\<close>

definition df_clean :: "frame \<Rightarrow> frame" where
  "df_clean df = reset_index (iloc_from 2 df)"

subsection \<open>Task 1\<close>

definition col_employment :: string where
  "col_employment = ''Q47''"

definition col_rankings :: "(string \<times> string) list" where
  "col_rankings =
     [(''Q24_1'', ''CPA Exam Preparation''),
      (''Q24_2'', ''Networking Opportunities''),
      (''Q24_3'', ''Interaction with Experienced Faculty''),
      (''Q24_4'', ''Technical Accounting Skills''),
      (''Q24_5'', ''Soft Skill Development''),
      (''Q24_6'', ''Internship and Recruitment Opportunities'')]"

definition work_in_cpa_firm :: string where
  "work_in_cpa_firm = ''Work in CPA Firm''"

definition ranking_cols :: "string list" where
  "ranking_cols = map snd col_rankings"

text \<open>Lines 41 to 44: the check of the employment column, which prints and goes on.\<close>

definition warning_employment :: string where
  "warning_employment =
     ''Warning: Q47 not found. Searching for '' @ [CHR 0x27] @
     ''Do you currently work in a CPA firm?'' @ [CHR 0x27]"

definition verify_columns :: "frame \<Rightarrow> string list" where
  "verify_columns clean =
     (if col_employment \<notin> set (columns clean) then [warning_employment] else [])"

text \<open>
  Lines 47 to 59: the subset of the seven columns, the two renamings, the conversion of
  the six ranking columns one after the other, and the removal of incomplete rows.
\<close>

definition task1_df :: "lib \<Rightarrow> frame \<Rightarrow> exn + frame" where
  "task1_df L clean =
     (case getitem_cols (col_employment # map fst col_rankings) clean of
        Inl e \<Rightarrow> Inl e
      | Inr sub \<Rightarrow>
          Inr (dropna_subset (work_in_cpa_firm # ranking_cols)
                (fold (setitem_col (to_numeric L)) ranking_cols
                   (rename [(col_employment, work_in_cpa_firm)] (rename col_rankings sub)))))"

text \<open>Line 62.\<close>

definition task1_means :: "frame \<Rightarrow> table" where
  "task1_means t1 = groupby_mean work_in_cpa_firm ranking_cols t1"

text \<open>Line 67.\<close>

definition task1_melted :: "frame \<Rightarrow> frame" where
  "task1_melted t1 = melt work_in_cpa_firm ranking_cols ''Benefit'' ''Rank'' t1"

subsection \<open>Task 2\<close>

definition col_program :: string where
  "col_program = ''Q58''"

definition col_earnings :: string where
  "col_earnings = ''Q44''"

definition program_type :: string where
  "program_type = ''Program Type''"

definition earnings_belief :: string where
  "earnings_belief = ''Lifetime Earnings Belief''"

text \<open>Lines 93 to 100: the subset, the renaming, the restriction to MAcc and MBA, dropna.\<close>

definition task2_df :: "frame \<Rightarrow> exn + frame" where
  "task2_df clean =
     (case getitem_cols [col_program, col_earnings] clean of
        Inl e \<Rightarrow> Inl e
      | Inr sub \<Rightarrow>
          Inr (dropna (filter_isin program_type [''MAcc'', ''MBA'']
                (rename [(col_program, program_type), (col_earnings, earnings_belief)] sub))))"

definition likert_order :: "string list" where
  "likert_order =
     [''Definitely yes'', ''Probably yes'', ''Might or might not'', ''Probably not'',
      ''Definitely not'']"

text \<open>Lines 119 to 122, on the column labels of the crosstab.\<close>

definition existing_order :: "cell list \<Rightarrow> string list" where
  "existing_order cols = filter (\<lambda>val. Str val \<in> set cols) likert_order"

definition others :: "cell list \<Rightarrow> cell list" where
  "others cols = filter (\<lambda>c. c \<notin> set (map Str (existing_order cols))) cols"

definition final_order :: "cell list \<Rightarrow> cell list" where
  "final_order cols = map Str (existing_order cols) @ others cols"

text \<open>Lines 116 to 123: the percentage table with its columns reordered.\<close>

definition task2_crosstab :: "frame \<Rightarrow> table" where
  "task2_crosstab t2 =
     (let ct = crosstab_pct program_type earnings_belief t2
      in getitem_labels (final_order (col_labels ct)) ct)"

subsection \<open>Summary and main\<close>

definition task1_header :: string where
  "task1_header = ''Task 1: Mean Ranks by Employment Status (Lower = Higher Priority)''"

definition task2_header :: string where
  "task2_header = ''Task 2: Percentage Belief in Higher Lifetime Earnings by Program Type''"

text \<open>Lines 154 to 158: the five writes to the file, in order.\<close>

definition summary_text :: "lib \<Rightarrow> table \<Rightarrow> table \<Rightarrow> string" where
  "summary_text L means ct =
     (task1_header @ newline) @ to_csv L means @ newline @ (task2_header @ newline) @ to_csv L ct"

text \<open>
  How a run ends: \<open>main\<close> returns, \<open>sys.exit(n)\<close> is called, or an exception nobody catches
  stops the interpreter, which prints a traceback and exits with status 1.
\<close>

datatype outcome = Returned | SysExit nat | Uncaught exn

fun exit_status :: "outcome \<Rightarrow> nat" where
  "exit_status Returned = 0"
| "exit_status (SysExit n) = n"
| "exit_status (Uncaught e) = 1"

text \<open>What a run leaves: the lines printed, the files, and how it ended.\<close>

record run =
  stdout :: "string list"
  files :: "string \<rightharpoonup> string"
  outcome :: outcome

text \<open>
  Lines 23 to 160, from the cleaned table on. \<open>open(name, 'w')\<close> truncates the file, so
  its text afterwards is what the block wrote, whatever it held before.
\<close>

definition analysis :: "lib \<Rightarrow> (string \<rightharpoonup> string) \<Rightarrow> frame \<Rightarrow> run" where
  "analysis L fs clean =
     (let out1 = ''Starting Task 1...'' # verify_columns clean
      in case task1_df L clean of
           Inl e \<Rightarrow> \<lparr>stdout = out1, files = fs, outcome = Uncaught e\<rparr>
         | Inr t1 \<Rightarrow>
       (case barplot_png L (task1_melted t1) of
           Inl e \<Rightarrow> \<lparr>stdout = out1, files = fs, outcome = Uncaught e\<rparr>
         | Inr png1 \<Rightarrow>
       (let fs1 = fs(''task1_priorities.png'' \<mapsto> png1);
            out2 = out1 @ [''Task 1 completed. Saved task1_priorities.png'',
                           ''Starting Task 2...'']
        in case task2_df clean of
           Inl e \<Rightarrow> \<lparr>stdout = out2, files = fs1, outcome = Uncaught e\<rparr>
         | Inr t2 \<Rightarrow>
       (case barh_png L (task2_crosstab t2) of
           Inl e \<Rightarrow> \<lparr>stdout = out2, files = fs1, outcome = Uncaught e\<rparr>
         | Inr png2 \<Rightarrow>
           \<lparr>stdout = out2 @ [''Task 2 completed. Saved task2_earnings.png'',
                             ''Generating summary...'',
                             ''Summary saved to results_summary.csv''],
            files = fs1(''task2_earnings.png'' \<mapsto> png2,
                        ''results_summary.csv'' \<mapsto>
                          summary_text L (task1_means t1) (task2_crosstab t2)),
            outcome = Returned\<rparr>))))"

text \<open>Lines 9 to 14, then the rest: only FileNotFoundError is caught.\<close>

definition main :: "lib \<Rightarrow> (string \<rightharpoonup> string) \<Rightarrow> run" where
  "main L fs =
     (case read_csv L fs input_csv of
        Inl e \<Rightarrow>
          (if e = FileNotFoundError
           then \<lparr>stdout = [''Error: CSV file not found.''], files = fs, outcome = SysExit 1\<rparr>
           else \<lparr>stdout = [], files = fs, outcome = Uncaught e\<rparr>)
      | Inr df \<Rightarrow> analysis L fs (df_clean df))"

section \<open>The properties, in the words of the specification\<close>





text \<open>
  The rows of the cleaned table that Task 2 keeps: program type MAcc or MBA and an
  earnings belief that is present.
\<close>

definition retained :: "frame \<Rightarrow> cell list \<Rightarrow> bool" where
  "retained clean r =
     ((cell_at (columns clean) r col_program = Str ''MAcc'' \<or>
       cell_at (columns clean) r col_program = Str ''MBA'') \<and>
      cell_at (columns clean) r col_earnings \<noteq> NaN)"

text \<open>The respondents of program type \<open>p\<close> among the rows of the filtered table.\<close>

definition respondents :: "frame \<Rightarrow> cell \<Rightarrow> cell list list" where
  "respondents t2 p = filter (\<lambda>r. cell_at (columns t2) r program_type = p) (map snd (rows t2))"

definition believers :: "frame \<Rightarrow> cell \<Rightarrow> cell \<Rightarrow> cell list list" where
  "believers t2 p q = filter (\<lambda>r. cell_at (columns t2) r earnings_belief = q) (respondents t2 p)"

section \<open>A small survey\<close>

text \<open>
  An export with its two metadata rows and six respondents: one gives a rank that is not
  a number, one has no employment answer and no belief, one is a PhD student, and one
  belief is outside the five-point scale.
\<close>

definition survey_columns :: "string list" where
  "survey_columns =
     [''Q47'', ''Q24_1'', ''Q24_2'', ''Q24_3'', ''Q24_4'', ''Q24_5'', ''Q24_6'', ''Q58'', ''Q44'']"

definition survey :: frame where
  "survey =
     \<lparr>columns = survey_columns,
      rows = zip [0..<8]
        [ [Str ''Do you currently work in a CPA firm?'', Str ''a'', Str ''b'', Str ''c'', Str ''d'',
          Str ''e'', Str ''f'', Str ''Are you enrolled?'', Str ''Higher earnings?''],
         [Str ''QID47'', Str ''QID24_1'', Str ''QID24_2'', Str ''QID24_3'', Str ''QID24_4'',
          Str ''QID24_5'', Str ''QID24_6'', Str ''QID58'', Str ''QID44''],
         [Str ''Yes'', Str ''1'', Str ''2'', Str ''3'', Str ''4'', Str ''5'', Str ''6'',
          Str ''MAcc'', Str ''Definitely yes''],
         [Str ''No'', Str ''2'', Str ''1'', Str ''3'', Str ''4'', Str ''6'', Str ''5'',
          Str ''MBA'', Str ''Probably not''],
         [Str ''Yes'', Str ''3'', Str ''x'', Str ''1'', Str ''2'', Str ''4'', Str ''5'',
          Str ''PhD'', Str ''Definitely yes''],
         [NaN, Str ''1'', Str ''2'', Str ''3'', Str ''4'', Str ''5'', Str ''6'',
          Str ''MAcc'', NaN],
         [Str ''Yes'', Str ''4'', Str ''2'', Str ''1'', Str ''6'', Str ''5'', Str ''3'',
          Str ''MAcc'', Str ''Probably not''],
         [Str ''No'', Str ''6'', Str ''5'', Str ''4'', Str ''3'', Str ''2'', Str ''1'',
          Str ''MBA'', Str ''Unsure''] ]\<rparr>"

text \<open>The same export without the program-type column, and without the employment column.\<close>

definition survey_no_program :: frame where
  "survey_no_program =
     \<lparr>columns = butlast (butlast survey_columns) @ [''Q44''],
      rows = map (\<lambda>(i, r). (i, butlast (butlast r) @ [last r])) (rows survey)\<rparr>"

definition survey_no_employment :: frame where
  "survey_no_employment =
     \<lparr>columns = tl survey_columns, rows = map (\<lambda>(i, r). (i, tl r)) (rows survey)\<rparr>"

text \<open>An export that holds a single row.\<close>

definition one_row :: frame where
  "one_row = \<lparr>columns = [''Q47''], rows = [(0, [Str ''Do you currently work in a CPA firm?''])]\<rparr>"

text \<open>
  One choice of the library functions, enough to run the script on the survey: the parser
  knows three file texts, the ranks 1 to 6 are numbers, the charts are drawn unless the
  percentage table is empty, and the numbers of the survey's tables have a decimal form.
\<close>

definition survey_lib :: lib where
  "survey_lib =
     \<lparr>parse_csv = (\<lambda>txt. if txt = ''survey'' then Inr survey
                          else if txt = ''no program'' then Inr survey_no_program
                          else if txt = ''no employment'' then Inr survey_no_employment
                          else Inl (LibraryError ''EmptyDataError'')),
      to_numeric_str = map_of [(''1'', 1), (''2'', 2), (''3'', 3), (''4'', 4), (''5'', 5), (''6'', 6)],
      barplot_png = (\<lambda>df. Inr ''chart 1''),
      barh_png = (\<lambda>t. if body t = [] then Inl (LibraryError ''no numeric data to plot'')
                        else Inr ''chart 2''),
      float_repr = (\<lambda>x. case map_of [(0, ''0.0''), (2, ''2.0''), (5 / 2, ''2.5''), (3, ''3.0''),
                                          (7 / 2, ''3.5''), (4, ''4.0''), (9 / 2, ''4.5''),
                                          (5, ''5.0''), (50, ''50.0''), (100, ''100.0'')] x of
                          Some s \<Rightarrow> s | None \<Rightarrow> ''?''),
      csv_quote = (\<lambda>s. s)\<rparr>"

definition survey_fs :: "string \<rightharpoonup> string" where
  "survey_fs = [input_csv \<mapsto> ''survey'', ''results_summary.csv'' \<mapsto> ''old text'']"

section \<open>The metadata stripper\<close>

lemma rows_df_clean: "map snd (rows (df_clean df)) = drop 2 (map snd (rows df))"
  by (simp add: df_clean_def reset_index_def iloc_from_def drop_map)

lemma index_df_clean: "map fst (rows (df_clean df)) = [0..<length (rows df) - 2]"
  by (simp add: df_clean_def reset_index_def iloc_from_def)

lemma columns_df_clean: "columns (df_clean df) = columns df"
  by (simp add: df_clean_def reset_index_def iloc_from_def)

lemma length_df_clean: "length (rows (df_clean df)) = length (rows df) - 2"
  by (simp add: df_clean_def reset_index_def iloc_from_def)

text \<open>
  Claim C3, as the code has it. The stripped table keeps the columns, holds the rows of
  the raw table from position 2 on, whatever the two rows before them contain, and numbers
  them from zero. For a raw table of N rows with N at least 2 it has N - 2 rows, two fewer
  than the raw table, and when N is more than 2 its first row is the raw row at position 2.
\<close>

theorem metadata_stripper:
  "columns (df_clean df) = columns df \<and>
   map snd (rows (df_clean df)) = drop 2 (map snd (rows df)) \<and>
   map fst (rows (df_clean df)) = [0..<length (rows (df_clean df))] \<and>
   (2 \<le> length (rows df) \<longrightarrow> length (rows (df_clean df)) + 2 = length (rows df)) \<and>
   (2 < length (rows df) \<longrightarrow> snd (hd (rows (df_clean df))) = snd (rows df ! 2))"
proof -
  have first: "snd (hd (rows (df_clean df))) = snd (rows df ! 2)" if "2 < length (rows df)"
  proof -
    have "rows (df_clean df) \<noteq> []"
      using that length_df_clean [of df] by auto
    then have "snd (hd (rows (df_clean df))) = hd (map snd (rows (df_clean df)))"
      by (simp add: hd_map)
    also have "\<dots> = hd (drop 2 (map snd (rows df)))"
      by (simp only: rows_df_clean)
    also have "\<dots> = map snd (rows df) ! 2"
      using that by (simp add: hd_drop_conv_nth)
    also have "\<dots> = snd (rows df ! 2)"
      using that by simp
    finally show ?thesis .
  qed
  show ?thesis
    using first by (auto simp: rows_df_clean index_df_clean columns_df_clean length_df_clean)
qed

text \<open>The survey has eight raw rows: six are left, the first of them the raw row 2.\<close>

theorem metadata_stripper_witness:
  "2 < length (rows survey) \<and> length (rows (df_clean survey)) + 2 = length (rows survey) \<and>
   snd (hd (rows (df_clean survey))) = snd (rows survey ! 2)"
  using metadata_stripper [of survey] by (simp add: survey_def)

text \<open>
  Claim C3 as stated fails for a raw table of one row: the stripped table is empty, which
  is not N - 2 = -1 rows, and one row was removed, not two.
\<close>

theorem metadata_stripper_counterexample:
  "int (length (rows (df_clean one_row))) \<noteq> int (length (rows one_row)) - 2 \<and>
   length (rows one_row) - length (rows (df_clean one_row)) \<noteq> 2"
  by (simp add: df_clean_def reset_index_def iloc_from_def one_row_def)

section \<open>The order of the belief columns\<close>

lemma distinct_likert_order: "distinct likert_order"
  by (simp add: likert_order_def)

lemma others_out_of_scale: "others cols = filter (\<lambda>c. c \<notin> Str ` set likert_order) cols"
  unfolding others_def existing_order_def
  by (rule filter_cong) auto

lemma final_order_eq:
  "final_order cols =
     map Str (filter (\<lambda>l. Str l \<in> set cols) likert_order) @
     filter (\<lambda>c. c \<notin> Str ` set likert_order) cols"
  by (simp add: final_order_def others_out_of_scale existing_order_def)

lemma set_final_order: "set (final_order cols) = set cols"
  by (auto simp: final_order_eq)

lemma distinct_final_order: "distinct cols \<Longrightarrow> distinct (final_order cols)"
  by (auto simp: final_order_eq distinct_map distinct_likert_order inj_on_def)

lemma mset_final_order: "distinct cols \<Longrightarrow> mset (final_order cols) = mset cols"
  by (metis distinct_final_order set_final_order set_eq_iff_mset_eq_distinct)

lemma filter_final_order:
  "filter (\<lambda>c. c \<notin> Str ` set likert_order) (final_order cols) =
   filter (\<lambda>c. c \<notin> Str ` set likert_order) cols"
  by (simp add: final_order_eq filter_map comp_def)

lemma distinct_sorted_labels: "distinct (sorted_labels vs)"
  by (simp add: sorted_labels_def)

lemma set_sorted_labels: "set (sorted_labels vs) = set vs - {NaN}"
  by (auto simp: sorted_labels_def)

lemma col_labels_task2_crosstab:
  "col_labels (task2_crosstab t2) =
     final_order (col_labels (crosstab_pct program_type earnings_belief t2))"
  by (simp add: task2_crosstab_def Let_def getitem_labels_def)

lemma row_labels_task2_crosstab:
  "map fst (body (task2_crosstab t2)) =
     map fst (body (crosstab_pct program_type earnings_belief t2))"
  by (simp add: task2_crosstab_def Let_def getitem_labels_def comp_def case_prod_beta)

lemma distinct_col_labels_crosstab_pct: "distinct (col_labels (crosstab_pct a b df))"
  by (simp add: crosstab_pct_def Let_def distinct_sorted_labels)

text \<open>
  Claim C4. The columns of the percentage table are the labels of the five-point scale
  that occur among the crosstab's columns, in the order Definitely yes, Probably yes,
  Might or might not, Probably not, Definitely not, and after them the crosstab's other
  columns in the crosstab's order. Columns that are Probably not, Definitely yes and
  Might or might not, in whatever order, come out as Definitely yes, Might or might not,
  Probably not.
\<close>

theorem likert_column_reordering:
  "col_labels (task2_crosstab t2) =
     map Str (filter (\<lambda>l. Str l \<in> set (col_labels (crosstab_pct program_type earnings_belief t2)))
                likert_order) @
     filter (\<lambda>c. c \<notin> Str ` set likert_order)
       (col_labels (crosstab_pct program_type earnings_belief t2)) \<and>
   likert_order = [''Definitely yes'', ''Probably yes'', ''Might or might not'',
                   ''Probably not'', ''Definitely not''] \<and>
   (set cols = {Str ''Probably not'', Str ''Definitely yes'', Str ''Might or might not''} \<longrightarrow>
      final_order cols = [Str ''Definitely yes'', Str ''Might or might not'', Str ''Probably not''])"
proof -
  have example: "final_order cols =
      [Str ''Definitely yes'', Str ''Might or might not'', Str ''Probably not'']"
    if "set cols = {Str ''Probably not'', Str ''Definitely yes'', Str ''Might or might not''}"
  proof -
    have "filter (\<lambda>c. c \<notin> Str ` set likert_order) cols = []"
      using that by (auto simp: filter_empty_conv likert_order_def)
    then show ?thesis
      using that by (simp add: final_order_eq likert_order_def)
  qed
  show ?thesis
    using example by (simp add: col_labels_task2_crosstab final_order_eq) (simp add: likert_order_def)
qed

theorem likert_column_reordering_witness:
  "set [Str ''Probably not'', Str ''Definitely yes'', Str ''Might or might not''] =
     {Str ''Probably not'', Str ''Definitely yes'', Str ''Might or might not''} \<and>
   final_order [Str ''Probably not'', Str ''Definitely yes'', Str ''Might or might not''] =
     [Str ''Definitely yes'', Str ''Might or might not'', Str ''Probably not'']"
  using likert_column_reordering
    [of _ "[Str ''Probably not'', Str ''Definitely yes'', Str ''Might or might not'']"]
  by simp

text \<open>
  Claim C10. The columns of the percentage table are the columns of the crosstab, each
  exactly once, the rows are the crosstab's rows, and the columns outside the five-point
  scale keep the order they have in the crosstab.
\<close>

theorem reordering_is_permutation:
  "mset (col_labels (task2_crosstab t2)) =
     mset (col_labels (crosstab_pct program_type earnings_belief t2)) \<and>
   distinct (col_labels (task2_crosstab t2)) \<and>
   map fst (body (task2_crosstab t2)) =
     map fst (body (crosstab_pct program_type earnings_belief t2)) \<and>
   filter (\<lambda>c. c \<notin> Str ` set likert_order) (col_labels (task2_crosstab t2)) =
     filter (\<lambda>c. c \<notin> Str ` set likert_order)
       (col_labels (crosstab_pct program_type earnings_belief t2))"
  by (simp add: col_labels_task2_crosstab mset_final_order distinct_final_order
      filter_final_order distinct_col_labels_crosstab_pct row_labels_task2_crosstab)

section \<open>The run as a whole\<close>

lemma outcome_analysis_cases:
  "outcome (analysis L fs clean) = Returned \<or> (\<exists>e. outcome (analysis L fs clean) = Uncaught e)"
  by (simp add: analysis_def Let_def split: sum.splits)

lemma main_not_found:
  "fs input_csv = None \<Longrightarrow>
     main L fs = \<lparr>stdout = [''Error: CSV file not found.''], files = fs, outcome = SysExit 1\<rparr>"
  by (simp add: main_def read_csv_def)

lemma exit_status_main:
  "exit_status (outcome (main L fs)) = 0 \<longleftrightarrow> outcome (main L fs) = Returned"
proof (cases "read_csv L fs input_csv")
  case (Inl e)
  then show ?thesis by (simp add: main_def)
next
  case (Inr df)
  then show ?thesis
    using outcome_analysis_cases [of L fs "df_clean df"] by (auto simp: main_def)
qed

text \<open>
  Claim C7. When there is no input file the run prints the one line Error: CSV file not
  found., ends by \<open>sys.exit(1)\<close> and not by an uncaught exception, with a status that is
  not zero, and writes nothing. The status is zero exactly when \<open>main\<close> returns.
\<close>

theorem missing_input_file:
  "(fs input_csv = None \<longrightarrow>
      stdout (main L fs) = [''Error: CSV file not found.''] \<and>
      outcome (main L fs) = SysExit 1 \<and>
      exit_status (outcome (main L fs)) \<noteq> 0 \<and>
      files (main L fs) = fs) \<and>
   (outcome (main L fs) = Returned \<longleftrightarrow> exit_status (outcome (main L fs)) = 0)"
  by (auto simp: main_not_found exit_status_main)

text \<open>No file at all gives status 1; the survey gives a run that returns, with status 0.\<close>

theorem missing_input_file_witness:
  "Map.empty input_csv = None \<and>
   stdout (main survey_lib Map.empty) = [''Error: CSV file not found.''] \<and>
   exit_status (outcome (main survey_lib Map.empty)) = 1 \<and>
   outcome (main survey_lib survey_fs) = Returned \<and>
   exit_status (outcome (main survey_lib survey_fs)) = 0"
proof -
  have returned: "outcome (main survey_lib survey_fs) = Returned"
    by code_simp
  show ?thesis
    using missing_input_file [of Map.empty survey_lib]
      missing_input_file [of survey_fs survey_lib] returned
    by simp
qed

text \<open>
  Claim C9 does not hold of the code. Only the employment column is looked for (line 41).
  On the survey without its program-type column Q58 nothing is printed about the column:
  Task 1 completes and the subset of line 93 raises KeyError. On the survey without its
  employment column Q47 the warning is printed and the subset of line 47 raises KeyError.
\<close>

theorem missing_column_run:
  "stdout (main survey_lib (survey_fs(input_csv \<mapsto> ''no program''))) =
     [''Starting Task 1...'', ''Task 1 completed. Saved task1_priorities.png'',
      ''Starting Task 2...''] \<and>
   outcome (main survey_lib (survey_fs(input_csv \<mapsto> ''no program''))) =
     Uncaught (KeyError [''Q58'']) \<and>
   stdout (main survey_lib (survey_fs(input_csv \<mapsto> ''no employment''))) =
     [''Starting Task 1...'', warning_employment] \<and>
   outcome (main survey_lib (survey_fs(input_csv \<mapsto> ''no employment''))) =
     Uncaught (KeyError [''Q47''])"
  by code_simp







lemma input_csv_kept: "files (analysis L fs clean) input_csv = fs input_csv"
  by (simp add: analysis_def Let_def input_csv_def split: sum.splits)

lemma analysis_again:
  "files (analysis L fs clean) = fs' \<Longrightarrow> analysis L fs' clean = analysis L fs clean"
  by (auto simp: analysis_def Let_def split: sum.splits)

text \<open>
  Claim C8. A second run, started in the files the first run left, prints the same lines,
  ends the same way and leaves the same files; in particular the summary file has the
  same text after both runs. A run is a function of the library and the files it starts in.
\<close>

theorem second_run_identical:
  "main L (files (main L fs)) = main L fs \<and>
   files (main L (files (main L fs))) ''results_summary.csv'' =
     files (main L fs) ''results_summary.csv''"
proof -
  have "main L (files (main L fs)) = main L fs"
  proof (cases "read_csv L fs input_csv")
    case (Inl e)
    then show ?thesis by (simp add: main_def)
  next
    case (Inr df)
    then have m: "main L fs = analysis L fs (df_clean df)"
      by (simp add: main_def)
    have again: "read_csv L (files (analysis L fs (df_clean df))) input_csv = Inr df"
      using Inr by (simp add: read_csv_def input_csv_kept)
    have "main L (files (main L fs)) = main L (files (analysis L fs (df_clean df)))"
      by (simp only: m)
    also have "\<dots> = analysis L (files (analysis L fs (df_clean df))) (df_clean df)"
      using again by (simp add: main_def)
    also have "\<dots> = analysis L fs (df_clean df)"
      by (rule analysis_again) simp
    finally show ?thesis
      by (simp only: m)
  qed
  then show ?thesis by simp
qed

text \<open>On the survey the first run replaces the old summary, and the second run changes nothing.\<close>

theorem second_run_identical_witness:
  "files (main survey_lib (files (main survey_lib survey_fs))) ''results_summary.csv'' =
     files (main survey_lib survey_fs) ''results_summary.csv'' \<and>
   files (main survey_lib survey_fs) ''results_summary.csv'' \<noteq> survey_fs ''results_summary.csv''"
proof -
  have "files (main survey_lib survey_fs) ''results_summary.csv'' \<noteq>
      survey_fs ''results_summary.csv''"
    by code_simp
  then show ?thesis
    using second_run_identical [of survey_lib survey_fs] by simp
qed

section \<open>Task 2: the percentage table\<close>

lemma task2_df_Inr:
  assumes "task2_df clean = Inr t2"
  shows "columns t2 = [program_type, earnings_belief]"
    and "rows t2 = map (\<lambda>(i, r). (i, [cell_at (columns clean) r col_program,
                                        cell_at (columns clean) r col_earnings]))
                     (filter (\<lambda>(i, r). retained clean r) (rows clean))"
proof -
  let ?sub = "\<lparr>columns = [col_program, col_earnings],
      rows = map (\<lambda>(i, r). (i, map (cell_at (columns clean) r) [col_program, col_earnings]))
               (rows clean)\<rparr>"
  have t2: "t2 = dropna (filter_isin program_type [''MAcc'', ''MBA'']
                (rename [(col_program, program_type), (col_earnings, earnings_belief)] ?sub))"
    using assms by (simp add: task2_df_def getitem_cols_def Let_def split: if_splits)
  have names: "program_type \<noteq> earnings_belief" "col_program \<noteq> col_earnings"
    by (simp_all add: program_type_def earnings_belief_def col_program_def col_earnings_def)
  show "columns t2 = [program_type, earnings_belief]"
    using names by (simp add: t2 dropna_def filter_isin_def rename_def)
  show "rows t2 = map (\<lambda>(i, r). (i, [cell_at (columns clean) r col_program,
                                        cell_at (columns clean) r col_earnings]))
                     (filter (\<lambda>(i, r). retained clean r) (rows clean))"
    using names
    by (auto simp: t2 dropna_def filter_isin_def rename_def filter_map comp_def case_prod_beta
        cell_at_def retained_def intro!: arg_cong2 [where f = map] filter_cong)
qed

lemma length_filter_snd:
  "length (filter (\<lambda>(i, r). P r) xs) = length (filter P (map snd xs))"
  by (induction xs) auto

lemma sum_list_indicator:
  "distinct qs \<Longrightarrow>
     sum_list (map (\<lambda>q. if c = q then 1 else 0) qs) = (if c \<in> set qs then 1 else (0::nat))"
  by (induction qs) auto

lemma count_partition:
  assumes "distinct qs" and "\<forall>x \<in> set xs. P x \<longrightarrow> g x \<in> set qs"
  shows "sum_list (map (\<lambda>q. length (filter (\<lambda>x. P x \<and> g x = q) xs)) qs) = length (filter P xs)"
  using assms(2)
proof (induction xs)
  case Nil
  then show ?case by simp
next
  case (Cons x xs)
  have "sum_list (map (\<lambda>q. length (filter (\<lambda>x. P x \<and> g x = q) (x # xs))) qs) =
        sum_list (map (\<lambda>q. (if P x \<and> g x = q then 1 else 0) +
                           length (filter (\<lambda>x. P x \<and> g x = q) xs)) qs)"
    by (intro arg_cong [where f = sum_list] map_cong) auto
  also have "\<dots> = sum_list (map (\<lambda>q. if P x \<and> g x = q then 1 else 0) qs) +
                   sum_list (map (\<lambda>q. length (filter (\<lambda>x. P x \<and> g x = q) xs)) qs)"
    by (simp add: sum_list_addf)
  also have "sum_list (map (\<lambda>q. if P x \<and> g x = q then 1 else 0) qs) =
             (if P x then 1 else (0::nat))"
  proof (cases "P x")
    case True
    then have "g x \<in> set qs" using Cons.prems by simp
    then show ?thesis
      using True sum_list_indicator [OF assms(1), of "g x"] by simp
  next
    case False
    then show ?thesis by simp
  qed
  also have "sum_list (map (\<lambda>q. length (filter (\<lambda>x. P x \<and> g x = q) xs)) qs) =
             length (filter P xs)"
    using Cons by simp
  finally show ?case by simp
qed

lemma value_at_map:
  "l \<in> set labels \<Longrightarrow> value_at labels (map f labels) l = f l"
  by (simp add: value_at_def map_of_zip_map)

lemma cell_at_pair:
  "a \<noteq> b \<Longrightarrow> cell_at [a, b] [p, q] a = p \<and> cell_at [a, b] [p, q] b = q"
  by (simp add: cell_at_def)

lemma task2_rows_present:
  assumes "task2_df clean = Inr t2" and "r \<in> set (map snd (rows t2))"
  shows "(cell_at (columns t2) r program_type = Str ''MAcc'' \<or>
          cell_at (columns t2) r program_type = Str ''MBA'') \<and>
         cell_at (columns t2) r earnings_belief \<noteq> NaN"
proof -
  have names: "program_type \<noteq> earnings_belief"
    by (simp add: program_type_def earnings_belief_def)
  from assms(2) obtain i r0 where "(i, r0) \<in> set (rows clean)" "retained clean r0"
    and r: "r = [cell_at (columns clean) r0 col_program, cell_at (columns clean) r0 col_earnings]"
    unfolding task2_df_Inr(2) [OF assms(1)] by auto
  then show ?thesis
    using cell_at_pair [OF names] by (simp add: task2_df_Inr(1) [OF assms(1)] retained_def)
qed

lemma crosstab_count_eq:
  assumes "task2_df clean = Inr t2"
  shows "crosstab_count program_type earnings_belief t2 p q = length (believers t2 p q)"
  by (simp add: crosstab_count_def believers_def respondents_def length_filter_snd conj_commute)

lemma task2_present:
  assumes "task2_df clean = Inr t2"
  shows "filter (\<lambda>(i, r). cell_at (columns t2) r program_type \<noteq> NaN \<and>
                          cell_at (columns t2) r earnings_belief \<noteq> NaN) (rows t2) = rows t2"
proof -
  have "\<forall>x \<in> set (rows t2). cell_at (columns t2) (snd x) program_type \<noteq> NaN \<and>
          cell_at (columns t2) (snd x) earnings_belief \<noteq> NaN"
    using task2_rows_present [OF assms] by fastforce
  then show ?thesis
    by (simp add: case_prod_beta)
qed

lemma crosstab_pct_task2:
  assumes "task2_df clean = Inr t2"
  shows "crosstab_pct program_type earnings_belief t2 =
     (let ps = sorted_labels (map (\<lambda>r. cell_at (columns t2) r program_type) (map snd (rows t2)));
          qs = sorted_labels (map (\<lambda>r. cell_at (columns t2) r earnings_belief) (map snd (rows t2)))
      in \<lparr>index_name = program_type, col_labels = qs,
          body = map (\<lambda>p. (p, map (\<lambda>q. Num (of_nat (length (believers t2 p q)) /
                                         of_nat (sum_list (map (\<lambda>q. length (believers t2 p q)) qs)) * 100))
                                 qs)) ps\<rparr>)"
  unfolding crosstab_pct_def task2_present [OF assms] crosstab_count_eq [OF assms]
  by (simp add: Let_def comp_def split_def)

lemma row_total:
  assumes "task2_df clean = Inr t2"
  shows "sum_list (map (\<lambda>q. length (believers t2 p q))
           (sorted_labels (map (\<lambda>r. cell_at (columns t2) r earnings_belief) (map snd (rows t2))))) =
         length (respondents t2 p)"
proof -
  let ?qs = "sorted_labels (map (\<lambda>r. cell_at (columns t2) r earnings_belief) (map snd (rows t2)))"
  have "\<forall>r \<in> set (map snd (rows t2)). cell_at (columns t2) r program_type = p \<longrightarrow>
          cell_at (columns t2) r earnings_belief \<in> set ?qs"
    using task2_rows_present [OF assms] by (auto simp: set_sorted_labels)
  from count_partition [OF distinct_sorted_labels this]
  show ?thesis
    by (simp add: believers_def respondents_def)
qed




lemma body_task2_crosstab:
  assumes "task2_df clean = Inr t2"
  shows "body (task2_crosstab t2) =
     map (\<lambda>p. (p, map (\<lambda>q. Num (of_nat (length (believers t2 p q)) /
                               of_nat (length (respondents t2 p)) * 100))
                    (col_labels (task2_crosstab t2))))
         (sorted_labels (map (\<lambda>r. cell_at (columns t2) r program_type) (map snd (rows t2))))"
proof -
  let ?qs = "sorted_labels (map (\<lambda>r. cell_at (columns t2) r earnings_belief) (map snd (rows t2)))"
  have cols: "col_labels (crosstab_pct program_type earnings_belief t2) = ?qs"
    by (simp add: crosstab_pct_task2 [OF assms] Let_def)
  let ?ps = "sorted_labels (map (\<lambda>r. cell_at (columns t2) r program_type) (map snd (rows t2)))"
  let ?F = "\<lambda>p q. Num (of_nat (length (believers t2 p q)) /
      of_nat (sum_list (map (\<lambda>q. length (believers t2 p q)) ?qs)) * 100)"
  let ?G = "\<lambda>p q. Num (of_nat (length (believers t2 p q)) /
      of_nat (length (respondents t2 p)) * 100)"
  have rows0: "body (crosstab_pct program_type earnings_belief t2) =
      map (\<lambda>p. (p, map (?F p) ?qs)) ?ps"
    by (simp add: crosstab_pct_task2 [OF assms] Let_def del: map_map)
  have sel: "map (value_at ?qs (map f ?qs)) (final_order ?qs) = map f (final_order ?qs)" for f
    by (rule map_cong) (simp_all add: value_at_map set_final_order)
  have "body (task2_crosstab t2) =
      map (\<lambda>(k, vs). (k, map (value_at ?qs vs) (final_order ?qs)))
        (map (\<lambda>p. (p, map (?F p) ?qs)) ?ps)"
    by (simp add: task2_crosstab_def getitem_labels_def Let_def cols rows0 del: map_map)
  also have "\<dots> = map (\<lambda>p. (p, map (value_at ?qs (map (?F p) ?qs)) (final_order ?qs))) ?ps"
    by (simp add: comp_def)
  also have "\<dots> = map (\<lambda>p. (p, map (?F p) (final_order ?qs))) ?ps"
    by (simp only: sel)
  also have "\<dots> = map (\<lambda>p. (p, map (?G p) (final_order ?qs))) ?ps"
    by (simp only: row_total [OF assms])
  finally show ?thesis
    by (simp only: col_labels_task2_crosstab cols)
qed


lemma cell_key_inj: "inj cell_key"
proof (rule injI)
  fix a b assume "cell_key a = cell_key b"
  then show "a = b" by (cases a; cases b) auto
qed

lemma sorted_labels_two:
  assumes "set vs = {a, b}" and "a \<noteq> NaN" and "b \<noteq> NaN" and "cell_key a < cell_key b"
  shows "sorted_labels vs = [a, b]"
proof -
  let ?ys = "sorted_labels vs"
  have set: "set ?ys = {a, b}"
    using assms by (auto simp: set_sorted_labels)
  have "sorted (map cell_key ?ys)"
    by (simp add: sorted_labels_def)
  moreover have "distinct (map cell_key ?ys)"
    by (simp add: distinct_map distinct_sorted_labels inj_on_subset [OF cell_key_inj])
  moreover have "sorted (map cell_key [a, b])" "distinct (map cell_key [a, b])"
    using assms(4) by auto
  moreover have "set (map cell_key ?ys) = set (map cell_key [a, b])"
    using set by simp
  ultimately have "map cell_key ?ys = map cell_key [a, b]"
    by (metis sorted_distinct_set_unique)
  then show ?thesis
    using cell_key_inj by (metis inj_map_eq_map)
qed

lemma MAcc_before_MBA: "cell_key (Str ''MAcc'') < cell_key (Str ''MBA'')"
  by code_simp

lemma row_labels_task2:
  assumes "task2_df clean = Inr t2"
  shows "map fst (body (task2_crosstab t2)) =
     sorted_labels (map (\<lambda>r. cell_at (columns t2) r program_type) (map snd (rows t2)))"
  unfolding body_task2_crosstab [OF assms] by (simp add: comp_def)

lemma task2_df_same_columns:
  assumes "task2_df clean = Inr t2" and "columns clean' = columns clean"
  shows "\<exists>t2'. task2_df clean' = Inr t2'"
  using assms by (simp add: task2_df_def getitem_cols_def Let_def split: if_splits)

lemma retained_columns: "columns clean' = columns clean \<Longrightarrow> retained clean' = retained clean"
  by (rule ext) (simp add: retained_def)



text \<open>
  Claim C5. The filtered table of Task 2 holds the program type and the belief of exactly
  the rows whose program type is MAcc or MBA and whose belief is present, in their order;
  deleting every other row from the cleaned table beforehand gives the same filtered table,
  hence the same percentage table. The rows of the percentage table are labelled MAcc or
  MBA, and when both occur among the rows kept the table has the two rows MAcc and MBA.
\<close>

theorem program_type_restriction:
  "task2_df clean = Inr t2 \<Longrightarrow>
     map snd (rows t2) =
       map (\<lambda>r. [cell_at (columns clean) r col_program, cell_at (columns clean) r col_earnings])
         (filter (retained clean) (map snd (rows clean))) \<and>
     task2_df (clean\<lparr>rows := filter (\<lambda>(i, r). retained clean r) (rows clean)\<rparr>) = Inr t2 \<and>
     set (map fst (body (task2_crosstab t2))) \<subseteq> {Str ''MAcc'', Str ''MBA''} \<and>
     (Str ''MAcc'' \<in> set (map (\<lambda>r. cell_at (columns t2) r program_type) (map snd (rows t2))) \<and>
      Str ''MBA'' \<in> set (map (\<lambda>r. cell_at (columns t2) r program_type) (map snd (rows t2))) \<longrightarrow>
        map fst (body (task2_crosstab t2)) = [Str ''MAcc'', Str ''MBA''])"
proof -
  assume t2: "task2_df clean = Inr t2"
  let ?clean' = "clean\<lparr>rows := filter (\<lambda>(i, r). retained clean r) (rows clean)\<rparr>"
  let ?progs = "map (\<lambda>r. cell_at (columns t2) r program_type) (map snd (rows t2))"
  have kept: "map snd (rows t2) =
       map (\<lambda>r. [cell_at (columns clean) r col_program, cell_at (columns clean) r col_earnings])
         (filter (retained clean) (map snd (rows clean)))"
    by (simp add: task2_df_Inr(2) [OF t2] filter_map comp_def split_def)
  have cols': "columns ?clean' = columns clean"
    by simp
  obtain t2' where t2': "task2_df ?clean' = Inr t2'"
    using task2_df_same_columns [OF t2 cols'] by blast
  have "columns t2' = columns t2"
    by (simp add: task2_df_Inr(1) [OF t2] task2_df_Inr(1) [OF t2'])
  moreover have "rows t2' = rows t2"
    by (simp add: task2_df_Inr(2) [OF t2] task2_df_Inr(2) [OF t2'] retained_columns [OF cols'])
  ultimately have "t2' = t2"
    by simp
  with t2' have same: "task2_df ?clean' = Inr t2"
    by simp
  have sub: "set ?progs \<subseteq> {Str ''MAcc'', Str ''MBA''}"
    using task2_rows_present [OF t2] by auto
  then have labels: "set (map fst (body (task2_crosstab t2))) \<subseteq> {Str ''MAcc'', Str ''MBA''}"
    by (auto simp: row_labels_task2 [OF t2] set_sorted_labels)
  have two: "map fst (body (task2_crosstab t2)) = [Str ''MAcc'', Str ''MBA'']"
    if "Str ''MAcc'' \<in> set ?progs" "Str ''MBA'' \<in> set ?progs"
  proof -
    have "set ?progs = {Str ''MAcc'', Str ''MBA''}"
      using sub that by auto
    then show ?thesis
      unfolding row_labels_task2 [OF t2]
      by (rule sorted_labels_two) (simp_all add: MAcc_before_MBA)
  qed
  show ?thesis
    using kept same labels two by blast
qed

text \<open>
  On the survey the PhD row and the row without a belief are left out: four rows are kept,
  and the table has the rows MAcc and MBA.
\<close>

theorem program_type_restriction_witness:
  "task2_df (df_clean survey) = Inr (projr (task2_df (df_clean survey))) \<and>
   Str ''MAcc'' \<in> set (map (\<lambda>r. cell_at (columns (projr (task2_df (df_clean survey)))) r program_type)
                        (map snd (rows (projr (task2_df (df_clean survey)))))) \<and>
   Str ''MBA'' \<in> set (map (\<lambda>r. cell_at (columns (projr (task2_df (df_clean survey)))) r program_type)
                       (map snd (rows (projr (task2_df (df_clean survey)))))) \<and>
   length (rows (df_clean survey)) = 6 \<and>
   length (rows (projr (task2_df (df_clean survey)))) = 4 \<and>
   map fst (body (task2_crosstab (projr (task2_df (df_clean survey))))) =
     [Str ''MAcc'', Str ''MBA'']"
proof -
  have ok: "task2_df (df_clean survey) = Inr (projr (task2_df (df_clean survey)))"
    by code_simp
  have macc: "Str ''MAcc'' \<in>
      set (map (\<lambda>r. cell_at (columns (projr (task2_df (df_clean survey)))) r program_type)
             (map snd (rows (projr (task2_df (df_clean survey))))))"
    by code_simp
  have mba: "Str ''MBA'' \<in>
      set (map (\<lambda>r. cell_at (columns (projr (task2_df (df_clean survey)))) r program_type)
             (map snd (rows (projr (task2_df (df_clean survey))))))"
    by code_simp
  have six: "length (rows (df_clean survey)) = 6"
    by code_simp
  have four: "length (rows (projr (task2_df (df_clean survey)))) = 4"
    by code_simp
  have labels: "map fst (body (task2_crosstab (projr (task2_df (df_clean survey))))) =
      [Str ''MAcc'', Str ''MBA'']"
    using program_type_restriction [OF ok] macc mba by blast
  show ?thesis
    by (rule conjI ok macc mba six four labels)+
qed

section \<open>Task 1: the mean-rank table\<close>










end
